theory Spec2Isabelle
  imports Main "HOL-Library.Signed_Division" "HOL-Library.Product_Lexorder"
begin

section \<open>Operation algebra: struct Op\<close>

text \<open>
  An \<open>Op\<close> holds a 3x3 "rotation" matrix and a translation vector, both as integer
  numerators over the shared denominator \<open>DEN = 24\<close>.  The C++ arrays
  \<open>std::array<int, 3>\<close> and \<open>std::array<std::array<int, 3>, 3>\<close> are triples and
  triples of rows.  C++ \<open>int\<close> is modelled by \<open>int\<close>; the C++ operators \<open>/\<close> and
  \<open>%\<close> truncate towards zero and are \<open>sdiv\<close> and \<open>smod\<close>.
\<close>

type_synonym Tran = "int \<times> int \<times> int"
type_synonym Rot = "Tran \<times> Tran \<times> Tran"

record Op =
  rot :: Rot
  tran :: Tran

definition DEN :: int where
  "DEN = 24"

text \<open>The body of the loop of \<open>Op::wrap\<close>, for one component \<open>tran[i]\<close>.\<close>

definition wrap_component :: "int \<Rightarrow> int" where
  "wrap_component t =
     (if t \<ge> DEN then t smod DEN
      else if t < 0 then ((t + 1) smod DEN) + DEN - 1
      else t)"

definition wrap :: "Op \<Rightarrow> Op" where
  "wrap op = (case tran op of (t0, t1, t2) \<Rightarrow>
     op\<lparr>tran := (wrap_component t0, wrap_component t1, wrap_component t2)\<rparr>)"

section \<open>Properties of wrap\<close>

lemma smod_of_nonneg: "0 \<le> a \<Longrightarrow> a smod (24::int) = a mod 24"
  by (simp add: smod_int_alt_def sgn_if)

lemma smod_of_nonpos: "a \<le> 0 \<Longrightarrow> a smod (24::int) = - ((- a) mod 24)"
  by (simp add: smod_int_alt_def sgn_if)

lemma wrap_component_range: "0 \<le> wrap_component t \<and> wrap_component t < DEN"
proof -
  have neg: "0 \<le> - ((- (t + 1)) mod 24) + 23 \<and> - ((- (t + 1)) mod 24) + 23 < (24::int)"
    using pos_mod_bound [of 24 "- (t + 1)"] pos_mod_sign [of 24 "- (t + 1)"] by linarith
  show ?thesis
    using neg by (simp add: wrap_component_def DEN_def smod_of_nonneg smod_of_nonpos)
qed

lemma wrap_component_cong: "wrap_component t mod DEN = t mod DEN"
proof -
  have "(- ((- (t + 1)) mod 24) + 23) mod 24 = (- (- (t + 1)) + 23) mod (24::int)"
    by (metis mod_add_left_eq mod_minus_eq)
  also have "\<dots> = (t + 24) mod 24" by simp
  also have "\<dots> = t mod 24" by simp
  finally have neg: "(- ((- (t + 1)) mod 24) + 23) mod 24 = t mod (24::int)" .
  show ?thesis
    using neg by (simp add: wrap_component_def DEN_def smod_of_nonneg smod_of_nonpos)
qed

text \<open>
  C6.  After \<open>wrap()\<close> every translation component lies in \<open>[0, DEN)\<close> and is
  congruent modulo \<open>DEN\<close> to its value before the call; the rotation matrix is unchanged.
\<close>

theorem wrap_range_congruent_rot_unchanged:
  "(case tran (wrap \<lparr>rot = r, tran = (t0, t1, t2)\<rparr>) of (w0, w1, w2) \<Rightarrow>
      0 \<le> w0 \<and> w0 < DEN \<and> w0 mod DEN = t0 mod DEN \<and>
      0 \<le> w1 \<and> w1 < DEN \<and> w1 mod DEN = t1 mod DEN \<and>
      0 \<le> w2 \<and> w2 < DEN \<and> w2 mod DEN = t2 mod DEN)
   \<and> rot (wrap \<lparr>rot = r, tran = (t0, t1, t2)\<rparr>) = r"
  by (simp add: wrap_def wrap_component_range wrap_component_cong)

end
